theory Spec2Isabelle
  imports Complex_Main
begin

section \<open>Python values and errors\<close>

text \<open>
  The stores of \<^verbatim>\<open>sec3_data.py\<close> hold one JSON document per line, and the
  identity maps are Python dictionaries keyed and valued by whatever those documents
  contain.  Values are therefore modelled dynamically, as the values \<^verbatim>\<open>json.loads\<close>
  can return (floating-point numbers left out).  A JSON object is an association
  list in insertion order, like a Python \<^verbatim>\<open>dict\<close>.  A string is the list of the
  8-bit characters of its encoding; concatenation, comparison and the substring test
  act on it as they do on the Python string.
\<close>

datatype py_error =
    KeyError | TypeError | AttributeError | AssertionError | ValueError
  | JSONDecodeError | UnsupportedOperation | FileNotFoundError

datatype jval =
    JNull | JBool bool | JInt int | JStr string
  | JArr "jval list" | JObj "(string \<times> jval) list"

type_synonym 'a result = "py_error + 'a"

text \<open>Sequencing of fallible steps: the first raise ends the computation.\<close>

definition bind :: "'a result \<Rightarrow> ('a \<Rightarrow> 'b result) \<Rightarrow> 'b result" where
  "bind m f = (case m of Inl e \<Rightarrow> Inl e | Inr x \<Rightarrow> f x)"

text \<open>\<^verbatim>\<open>line[key]\<close> with a string key: only a dict can be subscripted by a string.\<close>

fun getitem :: "jval \<Rightarrow> string \<Rightarrow> jval result" where
  "getitem (JObj kvs) k = (case map_of kvs k of None \<Rightarrow> Inl KeyError | Some v \<Rightarrow> Inr v)"
| "getitem _ k = Inl TypeError"

text \<open>\<^verbatim>\<open>line[key] = v\<close>: an existing key keeps its place, a new key goes last.\<close>

fun obj_set :: "string \<Rightarrow> jval \<Rightarrow> (string \<times> jval) list \<Rightarrow> (string \<times> jval) list" where
  "obj_set k v [] = [(k, v)]"
| "obj_set k v ((k', v') # kvs) =
     (if k = k' then (k, v) # kvs else (k', v') # obj_set k v kvs)"

fun setitem :: "jval \<Rightarrow> string \<Rightarrow> jval \<Rightarrow> jval result" where
  "setitem (JObj kvs) k v = Inr (JObj (obj_set k v kvs))"
| "setitem _ k v = Inl TypeError"

text \<open>Truthiness, as \<^verbatim>\<open>if new_label:\<close> tests it.\<close>

fun truthy :: "jval \<Rightarrow> bool" where
  "truthy JNull = False"
| "truthy (JBool b) = b"
| "truthy (JInt n) = (n \<noteq> 0)"
| "truthy (JStr s) = (s \<noteq> [])"
| "truthy (JArr xs) = (xs \<noteq> [])"
| "truthy (JObj kvs) = (kvs \<noteq> [])"

subsection \<open>Dictionaries keyed by values\<close>

text \<open>
  \<^verbatim>\<open>user_ids\<close> and \<^verbatim>\<open>query_ids\<close> are dicts whose keys come out of records.
  Lists and dicts are unhashable (\<^verbatim>\<open>TypeError\<close>); \<^verbatim>\<open>True\<close> and \<^verbatim>\<open>1\<close> are the
  same key, as are \<^verbatim>\<open>False\<close> and \<^verbatim>\<open>0\<close>.
\<close>

type_synonym pydict = "jval \<rightharpoonup> jval"

fun hash_key :: "jval \<Rightarrow> jval option" where
  "hash_key (JArr xs) = None"
| "hash_key (JObj kvs) = None"
| "hash_key (JBool b) = Some (JInt (if b then 1 else 0))"
| "hash_key v = Some v"

definition dict_get :: "pydict \<Rightarrow> jval \<Rightarrow> jval result" where
  "dict_get d k =
     (case hash_key k of
        None \<Rightarrow> Inl TypeError
      | Some k' \<Rightarrow> (case d k' of None \<Rightarrow> Inl KeyError | Some v \<Rightarrow> Inr v))"

definition dict_set :: "pydict \<Rightarrow> jval \<Rightarrow> jval \<Rightarrow> pydict result" where
  "dict_set d k v =
     (case hash_key k of None \<Rightarrow> Inl TypeError | Some k' \<Rightarrow> Inr (d(k' \<mapsto> v)))"


subsection \<open>Strings\<close>

text \<open>\<^verbatim>\<open>s in t\<close> on strings: \<open>s\<close> occurs in \<open>t\<close> as a contiguous substring.\<close>

fun startswith :: "string \<Rightarrow> string \<Rightarrow> bool" where
  "startswith [] t = True"
| "startswith (c # s) [] = False"
| "startswith (c # s) (d # t) = (c = d \<and> startswith s t)"

fun str_in :: "string \<Rightarrow> string \<Rightarrow> bool" where
  "str_in s [] = (s = [])"
| "str_in s (d # t) = (startswith s (d # t) \<or> str_in s t)"

text \<open>
  \<^verbatim>\<open>x.lower()\<close> on a value: only a string has the method.  What \<^verbatim>\<open>str.lower\<close>
  returns depends on the Unicode character tables, which are not part of the
  repository: the function is a parameter, \<open>low\<close>, of everything that calls it.
\<close>

fun str_lower :: "(string \<Rightarrow> string) \<Rightarrow> jval \<Rightarrow> string result" where
  "str_lower low (JStr s) = Inr (low s)"
| "str_lower low _ = Inl AttributeError"

section \<open>The record store\<close>

text \<open>
  The file system maps a path to the text of the file as Python's text layer presents
  it.  A write is visible to a later reader of the same path (buffering is not
  modelled: every store is committed or the process ends before it is read again).
  The JSON library is not part of the repository: the serialiser and the parser are
  parameters, \<open>None\<close> from the parser standing for \<^verbatim>\<open>json.JSONDecodeError\<close>.
\<close>

type_synonym fsys = "string \<rightharpoonup> string"

datatype fmode = R | A

record py_file =
  f_path :: string
  f_pos :: nat
  f_closed :: bool

record DB =
  mode :: fmode
  db :: py_file

record json_lib =
  dumps :: "jval \<Rightarrow> string"
  loads :: "string \<Rightarrow> jval option"

definition content :: "fsys \<Rightarrow> string \<Rightarrow> string" where
  "content fs p = (case fs p of None \<Rightarrow> [] | Some c \<Rightarrow> c)"

text \<open>
  \<^verbatim>\<open>open(path, mode)\<close>: reading a missing file raises; appending creates it and
  starts at its end.
\<close>

definition py_open :: "fsys \<Rightarrow> string \<Rightarrow> fmode \<Rightarrow> (py_file \<times> fsys) result" where
  "py_open fs p m =
     (case m of
        R \<Rightarrow> (case fs p of
                None \<Rightarrow> Inl FileNotFoundError
              | Some c \<Rightarrow> Inr (\<lparr>f_path = p, f_pos = 0, f_closed = False\<rparr>, fs))
      | A \<Rightarrow> (case fs p of
                None \<Rightarrow> Inr (\<lparr>f_path = p, f_pos = 0, f_closed = False\<rparr>, fs(p \<mapsto> []))
              | Some c \<Rightarrow> Inr (\<lparr>f_path = p, f_pos = length c, f_closed = False\<rparr>, fs)))"

definition db_path :: "string \<Rightarrow> string" where
  "db_path db_name = ''./data/'' @ db_name @ ''.db''"

text \<open>\<^verbatim>\<open>DB.__init__\<close>: on \<^verbatim>\<open>FileNotFoundError\<close> an empty file is written first.\<close>

definition DB_init :: "fsys \<Rightarrow> string \<Rightarrow> fmode \<Rightarrow> (DB \<times> fsys) result" where
  "DB_init fs db_name m =
     (case py_open fs (db_path db_name) m of
        Inl FileNotFoundError \<Rightarrow>
          (let fs' = fs(db_path db_name \<mapsto> []) in
           bind (py_open fs' (db_path db_name) m) (\<lambda>(f, fs''). Inr (\<lparr>mode = m, db = f\<rparr>, fs'')))
      | Inl e \<Rightarrow> Inl e
      | Inr (f, fs') \<Rightarrow> Inr (\<lparr>mode = m, db = f\<rparr>, fs'))"

text \<open>\<^verbatim>\<open>file.write\<close>: a handle opened for append always writes at the end of the file.\<close>

definition f_write :: "py_file \<Rightarrow> fmode \<Rightarrow> string \<Rightarrow> fsys \<Rightarrow> fsys result" where
  "f_write f m s fs =
     (if f_closed f then Inl ValueError
      else if m = R then Inl UnsupportedOperation
      else Inr (fs(f_path f \<mapsto> content fs (f_path f) @ s)))"

definition DB_insert :: "json_lib \<Rightarrow> DB \<Rightarrow> jval \<Rightarrow> fsys \<Rightarrow> fsys result" where
  "DB_insert J self jsonf fs = f_write (db self) (mode self) (dumps J jsonf @ ''\<newline>'') fs"

definition DB_commit :: "DB \<Rightarrow> DB" where
  "DB_commit self = self\<lparr>db := (db self)\<lparr>f_closed := True\<rparr>\<rparr>"

text \<open>\<^verbatim>\<open>file.read()\<close>: the rest of the file from the current position, which moves to the end.\<close>

definition f_read :: "py_file \<Rightarrow> fmode \<Rightarrow> fsys \<Rightarrow> (string \<times> py_file) result" where
  "f_read f m fs =
     (if f_closed f then Inl ValueError
      else if m = A then Inl UnsupportedOperation
      else Inr (drop (f_pos f) (content fs (f_path f)),
                f\<lparr>f_pos := max (f_pos f) (length (content fs (f_path f)))\<rparr>))"

text \<open>Iterating a text file: the lines from the current position, each with its newline.\<close>

fun py_lines :: "string \<Rightarrow> string list" where
  "py_lines [] = []"
| "py_lines (c # cs) =
     (if c = CHR 0x0A then [c] # py_lines cs
      else (case py_lines cs of [] \<Rightarrow> [[c]] | l # ls \<Rightarrow> (c # l) # ls))"

text \<open>\<^verbatim>\<open>json.loads(line)\<close>, the decode error as a value.\<close>

definition parse_line :: "json_lib \<Rightarrow> string \<Rightarrow> jval result" where
  "parse_line J line = (case loads J line of None \<Rightarrow> Inl JSONDecodeError | Some jsf \<Rightarrow> Inr jsf)"

text \<open>
  \<^verbatim>\<open>DB.loop\<close> is a generator: each line is parsed when the consumer asks for it, so the
  model hands the consumer one parse result per line and the consumer stops at the first
  failure it meets.  Iterating leaves the handle at the end of the file; every caller
  drops the handle after its one loop, so the moved handle is not returned.
\<close>

definition DB_loop :: "json_lib \<Rightarrow> DB \<Rightarrow> fsys \<Rightarrow> (jval result) list result" where
  "DB_loop J self fs =
     (if mode self \<noteq> R then Inl AssertionError
      else if f_closed (db self) then Inl ValueError
      else Inr (map (parse_line J)
                  (py_lines (drop (f_pos (db self)) (content fs (f_path (db self)))))))"

text \<open>A consumer that only collects what \<^verbatim>\<open>DB.loop\<close> yields.\<close>

fun collect :: "(jval result) list \<Rightarrow> jval list result" where
  "collect [] = Inr []"
| "collect (Inl e # rest) = Inl e"
| "collect (Inr v # rest) = bind (collect rest) (\<lambda>vs. Inr (v # vs))"

section \<open>Rebuilding the identity maps\<close>

text \<open>
  One pass of the loop body of \<^verbatim>\<open>reconstruct_ids\<close>.  In an assignment
  \<^verbatim>\<open>d[k] = v\<close> Python evaluates \<open>v\<close> before \<open>k\<close>; a \<^verbatim>\<open>KeyError\<close> of either
  statement of the \<^verbatim>\<open>try\<close> block enters the handler with the maps as they then are.
\<close>

definition assign_from :: "pydict \<Rightarrow> jval \<Rightarrow> string \<Rightarrow> string \<Rightarrow> pydict result" where
  "assign_from d line kfield vfield =
     bind (getitem line vfield) (\<lambda>v.
     bind (getitem line kfield) (\<lambda>k.
     dict_set d k v))"

definition reconstruct_line :: "jval \<Rightarrow> pydict \<times> pydict \<Rightarrow> (pydict \<times> pydict) result" where
  "reconstruct_line line uq =
     (case uq of (user_ids, query_ids) \<Rightarrow>
        (case assign_from user_ids line ''user_id'' ''label'' of
           Inl KeyError \<Rightarrow>
             bind (assign_from user_ids line ''id'' ''label'') (\<lambda>u. Inr (u, query_ids))
         | Inl e \<Rightarrow> Inl e
         | Inr u1 \<Rightarrow>
             (case assign_from query_ids line ''tweet_id'' ''query'' of
                Inl KeyError \<Rightarrow>
                  bind (assign_from u1 line ''id'' ''label'') (\<lambda>u. Inr (u, query_ids))
              | Inl e \<Rightarrow> Inl e
              | Inr q1 \<Rightarrow> Inr (u1, q1))))"

fun reconstruct_loop :: "(jval result) list \<Rightarrow> pydict \<times> pydict \<Rightarrow> (pydict \<times> pydict) result" where
  "reconstruct_loop [] uq = Inr uq"
| "reconstruct_loop (Inl e # rest) uq = Inl e"
| "reconstruct_loop (Inr line # rest) uq =
     bind (reconstruct_line line uq) (reconstruct_loop rest)"

text \<open>
  \<^verbatim>\<open>reconstruct_ids\<close>: the corrected store is opened and read whole to see whether it
  is empty; the raw store replaces it when it is.  The loop then runs on the handle that
  is left.
\<close>

definition reconstruct_ids :: "json_lib \<Rightarrow> fsys \<Rightarrow> string \<Rightarrow> ((pydict \<times> pydict) \<times> fsys) result" where
  "reconstruct_ids J fs db_id =
     bind (DB_init fs (db_id @ ''_fix'') R) (\<lambda>(uds, fs1).
     bind (f_read (db uds) (mode uds) fs1) (\<lambda>(text, f').
     bind (if text = [] then DB_init fs1 db_id R else Inr (uds\<lparr>db := f'\<rparr>, fs1)) (\<lambda>(uds', fs2).
     bind (DB_loop J uds' fs2) (\<lambda>items.
     bind (reconstruct_loop items (Map.empty, Map.empty)) (\<lambda>uq.
     Inr (uq, fs2))))))"

section \<open>The distant collection\<close>

text \<open>
  The attributes of \<^verbatim>\<open>DistantCollection\<close>.  \<^verbatim>\<open>queries\<close> is the dict from the
  formatted query to its distant label, in insertion order.
\<close>

record DistantCollection =
  id_dc :: string
  hits :: DB
  users :: DB
  messages :: DB
  hit_fix :: DB
  msg_fix :: DB
  queries :: "(string \<times> string) list"
  filter_dc :: "string list"
  flip_any :: "string list"
  flip_prefix :: "string list"
  user_ids :: pydict
  query_ids :: pydict
  clean_level :: string
  max_dc :: nat

definition query_tails :: "string list" where
  "query_tails = ['' '', ''.'', ''!'', '','', '':'', '';'']"

text \<open>\<^verbatim>\<open>'m' if label == 'f' else 'f'\<close>\<close>

definition flip :: "jval \<Rightarrow> jval" where
  "flip label = (if label = JStr ''f'' then JStr ''m'' else JStr ''f'')"

text \<open>\<^verbatim>\<open>query + affix\<close> needs a string on the left.\<close>

fun as_str :: "jval \<Rightarrow> string result" where
  "as_str (JStr s) = Inr s"
| "as_str _ = Inl TypeError"

text \<open>\<^verbatim>\<open>flip_label\<close>; the bare \<^verbatim>\<open>return\<close> of the filter branch gives \<^verbatim>\<open>None\<close>.\<close>

definition flip_label :: "DistantCollection \<Rightarrow> jval \<Rightarrow> jval \<Rightarrow> string \<Rightarrow> jval result" where
  "flip_label self uid tid text =
     (if list_ex (\<lambda>it. str_in it text) (filter_dc self) then Inr JNull
      else
        bind (dict_get (user_ids self) uid) (\<lambda>label.
        bind (dict_get (query_ids self) tid) (\<lambda>query.
        bind (as_str query) (\<lambda>q.
          if list_ex (\<lambda>affix. str_in (q @ affix) text) query_tails then
            (if list_ex (\<lambda>f. str_in f text) (flip_any self) then Inr (flip label)
             else if list_ex (\<lambda>p. str_in (p @ q) text) (flip_prefix self) then Inr (flip label)
             else Inr label)
          else Inr label))))"

text \<open>
  \<^verbatim>\<open>new_label\<close> in \<^verbatim>\<open>correct_query_tweets\<close>: the arguments of the call are evaluated
  left to right.
\<close>

definition new_label :: "(string \<Rightarrow> string) \<Rightarrow> DistantCollection \<Rightarrow> jval \<Rightarrow> jval result" where
  "new_label low self line =
     bind (getitem line ''user_id'') (\<lambda>uid.
     bind (getitem line ''tweet_id'') (\<lambda>tid.
     bind (getitem line ''tweet_text'') (\<lambda>t.
     bind (str_lower low t) (\<lambda>text.
     flip_label self uid tid text))))"

text \<open>The loop body of \<^verbatim>\<open>correct_query_tweets\<close>.\<close>

definition correct_line ::
    "json_lib \<Rightarrow> (string \<Rightarrow> string) \<Rightarrow> DistantCollection \<Rightarrow> jval \<Rightarrow> fsys \<Rightarrow> fsys result" where
  "correct_line J low self line fs =
     bind (new_label low self line) (\<lambda>l.
       if truthy l then
         bind (setitem line ''label'' l) (\<lambda>line'.
         DB_insert J (hit_fix self) line' fs)
       else Inr fs)"

fun correct_loop ::
    "json_lib \<Rightarrow> (string \<Rightarrow> string) \<Rightarrow> DistantCollection \<Rightarrow> (jval result) list \<Rightarrow> fsys \<Rightarrow>
     fsys result" where
  "correct_loop J low self [] fs = Inr fs"
| "correct_loop J low self (Inl e # rest) fs = Inl e"
| "correct_loop J low self (Inr line # rest) fs =
     bind (correct_line J low self line fs) (correct_loop J low self rest)"

definition correct_query_tweets ::
    "json_lib \<Rightarrow> (string \<Rightarrow> string) \<Rightarrow> DistantCollection \<Rightarrow> fsys \<Rightarrow>
     (DistantCollection \<times> fsys) result" where
  "correct_query_tweets J low self fs =
     bind (DB_init fs (id_dc self) R) (\<lambda>(db, fs1).
     bind (DB_loop J db fs1) (\<lambda>items.
     bind (correct_loop J low self items fs1) (\<lambda>fs2.
     Inr (self\<lparr>hit_fix := DB_commit (hit_fix self)\<rparr>, fs2))))"






section \<open>Splitting the batches into train and test\<close>

text \<open>\<^verbatim>\<open>str.split(sep)\<close> for a one-character separator: always at least one piece.\<close>

fun py_split :: "char \<Rightarrow> string \<Rightarrow> string list" where
  "py_split sep [] = [[]]"
| "py_split sep (c # cs) =
     (if c = sep then [] # py_split sep cs
      else (case py_split sep cs of [] \<Rightarrow> [[c]] | l # ls \<Rightarrow> (c # l) # ls))"

text \<open>
  \<^verbatim>\<open>round(x)\<close> rounds to the nearest integer, a tie to the even one.  The product
  \<^verbatim>\<open>len(batches) * test_size\<close> is taken exactly, over the rationals; the product of
  binary floating-point numbers can fall on the other side of a tie, so the two agree
  only where the exact product is not within rounding error of a half.
\<close>

definition py_round :: "rat \<Rightarrow> int" where
  "py_round x =
     (let fl = \<lfloor>x\<rfloor>; d = x - of_int fl in
      if d < 1 / 2 then fl
      else if 1 / 2 < d then fl + 1
      else if even fl then fl else fl + 1)"

text \<open>The slices \<^verbatim>\<open>xs[:i]\<close> and \<^verbatim>\<open>xs[i:]\<close>: a negative index counts from the end.\<close>

definition slice_to :: "'a list \<Rightarrow> int \<Rightarrow> 'a list" where
  "slice_to xs i = (if 0 \<le> i then take (nat i) xs else take (length xs - nat (- i)) xs)"

definition slice_from :: "'a list \<Rightarrow> int \<Rightarrow> 'a list" where
  "slice_from xs i = (if 0 \<le> i then drop (nat i) xs else drop (length xs - nat (- i)) xs)"

definition write_lines :: "string list \<Rightarrow> string" where
  "write_lines xs = concat (map (\<lambda>x. x @ ''\<newline>'') xs)"

definition batches_to_sets :: "fsys \<Rightarrow> string \<Rightarrow> rat \<Rightarrow> fsys result" where
  "batches_to_sets fs db_id test_size =
     (case fs (''./data/'' @ db_id @ ''.dataf'') of
        None \<Rightarrow> Inl FileNotFoundError
      | Some text \<Rightarrow>
          (let batches = py_split (CHR 0x0A) text;
               n_test = py_round (of_nat (length batches) * test_size);
               n_train = int (length batches) - n_test;
               train = slice_to batches n_train;
               test = slice_from batches (- n_test)
           in Inr (fs(''./data/'' @ db_id @ ''.train'' \<mapsto> write_lines train,
                      ''./data/'' @ db_id @ ''.test'' \<mapsto> write_lines test))))"

section \<open>Writing a store and reading it back\<close>

text \<open>
  The clients of the store: a run of \<^verbatim>\<open>insert\<close> calls on one handle, a reader that opens
  a store and collects what \<^verbatim>\<open>loop\<close> yields, and the two in sequence (open for append,
  insert, commit, open for read, iterate).
\<close>

fun insert_all :: "json_lib \<Rightarrow> DB \<Rightarrow> jval list \<Rightarrow> fsys \<Rightarrow> fsys result" where
  "insert_all J self [] fs = Inr fs"
| "insert_all J self (r # rs) fs = bind (DB_insert J self r fs) (insert_all J self rs)"

definition read_all :: "json_lib \<Rightarrow> fsys \<Rightarrow> string \<Rightarrow> jval list result" where
  "read_all J fs db_name =
     bind (DB_init fs db_name R) (\<lambda>(self, fs').
     bind (DB_loop J self fs') collect)"

definition append_then_read :: "json_lib \<Rightarrow> fsys \<Rightarrow> string \<Rightarrow> jval list \<Rightarrow> jval list result" where
  "append_then_read J fs db_name rs =
     bind (DB_init fs db_name A) (\<lambda>(self, fs1).
     bind (insert_all J self rs fs1) (\<lambda>fs2.
       let committed = DB_commit self in read_all J fs2 db_name))"

text \<open>The text that inserting the records \<open>rs\<close> appends to a store.\<close>

definition store_text :: "json_lib \<Rightarrow> jval list \<Rightarrow> string" where
  "store_text J rs = concat (map (\<lambda>r. dumps J r @ ''\<newline>'') rs)"

text \<open>
  Replaying one store into the identity maps, as the specification describes the result
  of reconstruction: every record of that store, and nothing else.
\<close>

definition parse_store :: "json_lib \<Rightarrow> fsys \<Rightarrow> string \<Rightarrow> (pydict \<times> pydict) result" where
  "parse_store J fs db_name =
     bind (DB_init fs db_name R) (\<lambda>(self, fs').
     bind (DB_loop J self fs') (\<lambda>items.
     reconstruct_loop items (Map.empty, Map.empty)))"

section \<open>Records\<close>

text \<open>
  The hit record that \<^verbatim>\<open>get_users\<close> inserts and the message record that
  \<^verbatim>\<open>get_timelines\<close> inserts, and the two as the passes leave them: a hit with its
  label replaced, a message with its \<^verbatim>\<open>distant_label\<close> added.
\<close>

definition hit :: "jval \<Rightarrow> jval \<Rightarrow> string \<Rightarrow> string \<Rightarrow> string \<Rightarrow> jval" where
  "hit user_id tweet_id tweet_text label query =
     JObj [(''user_id'', user_id), (''tweet_id'', tweet_id), (''tweet_text'', JStr tweet_text),
           (''label'', JStr label), (''query'', JStr query)]"

definition message :: "jval \<Rightarrow> jval \<Rightarrow> string \<Rightarrow> jval" where
  "message tweet_id user_id tweet_text =
     JObj [(''tweet_id'', tweet_id), (''user_id'', user_id), (''tweet_text'', JStr tweet_text)]"

definition labelled_message :: "jval \<Rightarrow> jval \<Rightarrow> string \<Rightarrow> jval \<Rightarrow> jval" where
  "labelled_message tweet_id user_id tweet_text label =
     JObj [(''tweet_id'', tweet_id), (''user_id'', user_id), (''tweet_text'', JStr tweet_text),
           (''distant_label'', label)]"

fun with_label :: "jval \<Rightarrow> jval \<Rightarrow> jval" where
  "with_label l (JObj kvs) = JObj (obj_set ''label'' l kvs)"
| "with_label l v = v"


section \<open>The example collection\<close>

text \<open>
  The collection of the example scenarios: one user, \<open>1\<close>, with a stored label, and two hit
  tweets, \<open>10\<close> and \<open>11\<close>, with the query that matched them; the five stores as
  \<^verbatim>\<open>__init__\<close> opens them.
\<close>

definition scenario_dc ::
    "string \<Rightarrow> string \<Rightarrow> string list \<Rightarrow> string list \<Rightarrow> string list \<Rightarrow> DistantCollection" where
  "scenario_dc label query filters fany fprefix =
     \<lparr>id_dc = ''twitter_gender'',
      hits = \<lparr>mode = A, db = \<lparr>f_path = db_path ''twitter_gender'', f_pos = 0, f_closed = False\<rparr>\<rparr>,
      users = \<lparr>mode = A, db = \<lparr>f_path = db_path ''twitter_gender_usr'', f_pos = 0, f_closed = False\<rparr>\<rparr>,
      messages = \<lparr>mode = A, db = \<lparr>f_path = db_path ''twitter_gender_msg'', f_pos = 0, f_closed = False\<rparr>\<rparr>,
      hit_fix = \<lparr>mode = A, db = \<lparr>f_path = db_path ''twitter_gender_fix'', f_pos = 0, f_closed = False\<rparr>\<rparr>,
      msg_fix = \<lparr>mode = A, db = \<lparr>f_path = db_path ''twitter_gender_msg_fix'', f_pos = 0, f_closed = False\<rparr>\<rparr>,
      queries = [(query, label)],
      filter_dc = filters,
      flip_any = fany,
      flip_prefix = fprefix,
      user_ids = [JInt 1 \<mapsto> JStr label],
      query_ids = [JInt 10 \<mapsto> JStr query, JInt 11 \<mapsto> JStr query],
      clean_level = ''messages'',
      max_dc = 0\<rparr>"

text \<open>
  \<^verbatim>\<open>str.lower\<close> as it acts on ASCII text, which is what the texts and queries of the
  examples are: the letters \<^verbatim>\<open>A\<close> to \<^verbatim>\<open>Z\<close> become \<^verbatim>\<open>a\<close> to \<^verbatim>\<open>z\<close> and every other
  ASCII character stays.  It stands for \<^verbatim>\<open>str.lower\<close> in the examples only.
\<close>

definition lower_char :: "char \<Rightarrow> char" where
  "lower_char c =
     (case map_of (zip ''ABCDEFGHIJKLMNOPQRSTUVWXYZ'' ''abcdefghijklmnopqrstuvwxyz'') c of
        Some d \<Rightarrow> d
      | None \<Rightarrow> c)"

definition ascii_lower :: "string \<Rightarrow> string" where
  "ascii_lower s = map lower_char s"

text \<open>
  A JSON library cut down to the records of the examples: each with the line
  \<^verbatim>\<open>json.dumps\<close> writes for it, which \<^verbatim>\<open>json.loads\<close> reads back with or without the
  newline.
\<close>

definition demo_table :: "(jval \<times> string) list" where
  "demo_table =
     [(hit (JInt 1) (JInt 10) ''According to him I'm a girl.'' [] ''a girl'',
       ''{\"user_id\": 1, \"tweet_id\": 10, \"tweet_text\": \"According to him I'm a girl.\", \"label\": \"\", \"query\": \"a girl\"}''),
      (hit (JInt 1) (JInt 11) ''Honestly I'm a girl.'' [] ''a girl'',
       ''{\"user_id\": 1, \"tweet_id\": 11, \"tweet_text\": \"Honestly I'm a girl.\", \"label\": \"\", \"query\": \"a girl\"}''),
      (hit (JInt 1) (JInt 10) ''According to him I'm a girl.'' ''f'' ''a girl'',
       ''{\"user_id\": 1, \"tweet_id\": 10, \"tweet_text\": \"According to him I'm a girl.\", \"label\": \"f\", \"query\": \"a girl\"}''),
      (hit (JInt 1) (JInt 10) ''According to him I'm a girl.'' ''m'' ''a girl'',
       ''{\"user_id\": 1, \"tweet_id\": 10, \"tweet_text\": \"According to him I'm a girl.\", \"label\": \"m\", \"query\": \"a girl\"}''),
      (message (JInt 20) (JInt 1) ''I'm a girl and proud'',
       ''{\"tweet_id\": 20, \"user_id\": 1, \"tweet_text\": \"I'm a girl and proud\"}''),
      (message (JInt 21) (JInt 1) ''Good Morning'',
       ''{\"tweet_id\": 21, \"user_id\": 1, \"tweet_text\": \"Good Morning\"}''),
      (labelled_message (JInt 20) (JInt 1) ''I'm a girl and proud'' (JStr ''f''),
       ''{\"tweet_id\": 20, \"user_id\": 1, \"tweet_text\": \"I'm a girl and proud\", \"distant_label\": \"f\"}''),
      (labelled_message (JInt 21) (JInt 1) ''Good Morning'' (JStr ''f''),
       ''{\"tweet_id\": 21, \"user_id\": 1, \"tweet_text\": \"Good Morning\", \"distant_label\": \"f\"}'')]"

definition demo_json :: json_lib where
  "demo_json =
     \<lparr>dumps = (\<lambda>v. case map_of demo_table v of Some s \<Rightarrow> s | None \<Rightarrow> ''null''),
      loads = map_of (map (\<lambda>(v, s). (s @ ''\<newline>'', v)) demo_table @
                      map (\<lambda>(v, s). (s, v)) demo_table)\<rparr>"

text \<open>The line of a record in a store.\<close>

definition demo_line :: "jval \<Rightarrow> string" where
  "demo_line v = dumps demo_json v @ ''\<newline>''"

section \<open>The example stores\<close>

text \<open>
  File systems for the examples: a corrected store next to a raw store with another
  label, a raw store alone, and raw stores of hits whose user has the empty label, next
  to an empty corrected store.
\<close>

definition corrected_and_raw :: fsys where
  "corrected_and_raw =
     [db_path ''twitter_gender_fix'' \<mapsto>
        demo_line (hit (JInt 1) (JInt 10) ''According to him I'm a girl.'' ''m'' ''a girl''),
      db_path ''twitter_gender'' \<mapsto>
        demo_line (hit (JInt 1) (JInt 10) ''According to him I'm a girl.'' ''f'' ''a girl'')]"

definition raw_only :: fsys where
  "raw_only =
     [db_path ''twitter_gender'' \<mapsto>
        demo_line (hit (JInt 1) (JInt 10) ''According to him I'm a girl.'' ''f'' ''a girl'')]"

definition empty_label_hits :: fsys where
  "empty_label_hits =
     [db_path ''twitter_gender'' \<mapsto>
        demo_line (hit (JInt 1) (JInt 10) ''According to him I'm a girl.'' [] ''a girl'') @
        demo_line (hit (JInt 1) (JInt 11) ''Honestly I'm a girl.'' [] ''a girl''),
      db_path ''twitter_gender_fix'' \<mapsto> []]"

definition empty_label_hit :: fsys where
  "empty_label_hit =
     [db_path ''twitter_gender'' \<mapsto>
        demo_line (hit (JInt 1) (JInt 10) ''According to him I'm a girl.'' [] ''a girl''),
      db_path ''twitter_gender_fix'' \<mapsto> []]"



definition two_batches :: fsys where
  "two_batches = [''./data/query_gender.dataf'' \<mapsto> ''__label__1 hello\<newline>__label__0 world'']"

section \<open>Substrings\<close>

lemma startswith_iff: "startswith s t \<longleftrightarrow> (\<exists>ss. t = s @ ss)"
  by (induction s t rule: startswith.induct) auto

lemma str_in_iff: "str_in s t \<longleftrightarrow> (\<exists>ps ss. t = ps @ s @ ss)"
proof (induction t)
  case Nil
  then show ?case by auto
next
  case (Cons d t)
  show ?case
  proof
    assume "str_in s (d # t)"
    then consider "startswith s (d # t)" | "str_in s t" by auto
    then show "\<exists>ps ss. d # t = ps @ s @ ss"
    proof cases
      case 1
      then obtain ss where "d # t = s @ ss" by (auto simp: startswith_iff)
      then have "d # t = [] @ s @ ss" by simp
      then show ?thesis by blast
    next
      case 2
      then obtain ps ss where "t = ps @ s @ ss" using Cons.IH by blast
      then have "d # t = (d # ps) @ s @ ss" by simp
      then show ?thesis by blast
    qed
  next
    assume "\<exists>ps ss. d # t = ps @ s @ ss"
    then obtain ps ss where eq: "d # t = ps @ s @ ss" by blast
    show "str_in s (d # t)"
    proof (cases ps)
      case Nil
      with eq have "startswith s (d # t)" by (auto simp: startswith_iff)
      then show ?thesis by simp
    next
      case (Cons p ps')
      with eq have "t = ps' @ s @ ss" by simp
      then have "str_in s t" using Cons.IH by blast
      then show ?thesis by simp
    qed
  qed
qed

section \<open>Label correction\<close>

lemma scenario_dc_simps:
  "filter_dc (scenario_dc l q fi fa fp) = fi"
  "flip_any (scenario_dc l q fi fa fp) = fa"
  "flip_prefix (scenario_dc l q fi fa fp) = fp"
  "user_ids (scenario_dc l q fi fa fp) = [JInt 1 \<mapsto> JStr l]"
  "query_ids (scenario_dc l q fi fa fp) = [JInt 10 \<mapsto> JStr q, JInt 11 \<mapsto> JStr q]"
  by (simp_all add: scenario_dc_def)

lemma flip_label_unfiltered:
  assumes "\<not> list_ex (\<lambda>it. str_in it text) (filter_dc self)"
    and "dict_get (user_ids self) uid = Inr label"
    and "dict_get (query_ids self) tid = Inr (JStr q)"
  shows "flip_label self uid tid text =
           Inr (if list_ex (\<lambda>affix. str_in (q @ affix) text) query_tails \<and>
                   (list_ex (\<lambda>f. str_in f text) (flip_any self) \<or>
                    list_ex (\<lambda>p. str_in (p @ q) text) (flip_prefix self))
                then flip label else label)"
  using assms by (simp add: flip_label_def bind_def)

lemma flip_flip_neq: "flip (flip label) \<noteq> flip label"
  by (simp add: flip_def)

text \<open>
  C3 (as the code has it).  Query \<^verbatim>\<open>"a girl"\<close>, stored label \<^verbatim>\<open>'f'\<close>, text
  \<^verbatim>\<open>"i guess i'm a girl now"\<close>, no filter and no \<^verbatim>\<open>flip_any\<close> entry: the label becomes
  \<^verbatim>\<open>'m'\<close> exactly when some entry \<open>p\<close> of \<^verbatim>\<open>flip_prefix\<close> has \<open>p + query\<close> in the
  text.  In this text \<^verbatim>\<open>" guess "\<close> is followed by \<^verbatim>\<open>"i'm"\<close>, not by the query, so
  \<^verbatim>\<open>" guess "\<close> alone leaves the label \<^verbatim>\<open>'f'\<close>.  With the query \<^verbatim>\<open>"i'm a girl"\<close>, which
  the prefix does precede, any \<^verbatim>\<open>flip_prefix\<close> containing \<^verbatim>\<open>" guess "\<close> gives \<^verbatim>\<open>'m'\<close>.
\<close>

theorem flip_label_guess_scenario:
  "flip_label (scenario_dc ''f'' ''a girl'' [] [] ps) (JInt 1) (JInt 10) ''i guess i'm a girl now'' =
     Inr (if list_ex (\<lambda>p. str_in (p @ ''a girl'') ''i guess i'm a girl now'') ps
          then JStr ''m'' else JStr ''f'') \<and>
   ('' guess '' \<in> set ps \<longrightarrow>
      flip_label (scenario_dc ''f'' ''i'm a girl'' [] [] ps) (JInt 1) (JInt 10)
        ''i guess i'm a girl now'' = Inr (JStr ''m''))"
proof -
  let ?T = "''i guess i'm a girl now''"
  have a: "flip_label (scenario_dc ''f'' ''a girl'' [] [] ps) (JInt 1) (JInt 10) ?T =
     Inr (if list_ex (\<lambda>p. str_in (p @ ''a girl'') ?T) ps then JStr ''m'' else JStr ''f'')"
    by (subst flip_label_unfiltered [where label = "JStr ''f''" and q = "''a girl''"])
       (simp_all add: scenario_dc_simps dict_get_def query_tails_def flip_def)
  have b: "flip_label (scenario_dc ''f'' ''i'm a girl'' [] [] ps) (JInt 1) (JInt 10) ?T = Inr (JStr ''m'')"
    if "'' guess '' \<in> set ps"
  proof -
    have "str_in ('' guess '' @ ''i'm a girl'') ?T" by simp
    with that have "list_ex (\<lambda>p. str_in (p @ ''i'm a girl'') ?T) ps"
      unfolding list_ex_iff by blast
    then show ?thesis
      by (subst flip_label_unfiltered [where label = "JStr ''f''" and q = "''i'm a girl''"])
         (simp_all add: scenario_dc_simps dict_get_def query_tails_def flip_def)
  qed
  from a b show ?thesis by blast
qed

text \<open>The scenario at \<^verbatim>\<open>flip_prefix = [" guess "]\<close>, for both queries.\<close>

theorem flip_label_guess_scenario_witness:
  "'' guess '' \<in> set ['' guess ''] \<and>
   flip_label (scenario_dc ''f'' ''a girl'' [] [] ['' guess '']) (JInt 1) (JInt 10)
     ''i guess i'm a girl now'' = Inr (JStr ''f'') \<and>
   flip_label (scenario_dc ''f'' ''i'm a girl'' [] [] ['' guess '']) (JInt 1) (JInt 10)
     ''i guess i'm a girl now'' = Inr (JStr ''m'')"
  using flip_label_guess_scenario [of "['' guess '']"] by simp

text \<open>
  C3 as stated fails: with \<^verbatim>\<open>flip_prefix = [" guess "]\<close> the result is not \<^verbatim>\<open>'m'\<close>.
\<close>

theorem flip_label_guess_counterexample:
  "'' guess '' \<in> set (flip_prefix (scenario_dc ''f'' ''a girl'' [] [] ['' guess ''])) \<and>
   flip_label (scenario_dc ''f'' ''a girl'' [] [] ['' guess '']) (JInt 1) (JInt 10)
     ''i guess i'm a girl now'' \<noteq> Inr (JStr ''m'')"
  by (simp add: flip_label_def scenario_dc_simps dict_get_def bind_def query_tails_def flip_def)

text \<open>
  C4 (as the code has it).  Query \<^verbatim>\<open>"a girl"\<close>, stored label \<^verbatim>\<open>'f'\<close>, no filter, text
  \<^verbatim>\<open>"according to him i'm a girl"\<close>: the text ends with the query, so none of the six
  boundary characters follows it and the label stays \<^verbatim>\<open>'f'\<close> whatever \<^verbatim>\<open>flip_any\<close> and
  \<^verbatim>\<open>flip_prefix\<close> hold.  Once a boundary character follows the query (the same text with
  one of them appended) and \<^verbatim>\<open>flip_any\<close> contains \<^verbatim>\<open>"according to"\<close>, the result is \<^verbatim>\<open>'m'\<close>.
\<close>

theorem flip_label_according_scenario:
  "flip_label (scenario_dc ''f'' ''a girl'' [] fa fp) (JInt 1) (JInt 10)
     ''according to him i'm a girl'' = Inr (JStr ''f'') \<and>
   (''according to'' \<in> set fa \<and> tail \<in> set query_tails \<longrightarrow>
      flip_label (scenario_dc ''f'' ''a girl'' [] fa fp) (JInt 1) (JInt 10)
        (''according to him i'm a girl'' @ tail) = Inr (JStr ''m''))"
proof -
  let ?T = "''according to him i'm a girl''"
  have a: "flip_label (scenario_dc ''f'' ''a girl'' [] fa fp) (JInt 1) (JInt 10) ?T = Inr (JStr ''f'')"
    by (subst flip_label_unfiltered [where label = "JStr ''f''" and q = "''a girl''"])
       (simp_all add: scenario_dc_simps dict_get_def query_tails_def)
  have b: "flip_label (scenario_dc ''f'' ''a girl'' [] fa fp) (JInt 1) (JInt 10) (?T @ tail) = Inr (JStr ''m'')"
    if fa: "''according to'' \<in> set fa" and tail: "tail \<in> set query_tails"
  proof -
    have "str_in (''a girl'' @ tail) (?T @ tail)"
      unfolding str_in_iff by (rule exI [of _ "''according to him i'm ''"]) simp
    with tail have anchored: "list_ex (\<lambda>affix. str_in (''a girl'' @ affix) (?T @ tail)) query_tails"
      unfolding list_ex_iff by blast
    have "str_in ''according to'' (?T @ tail)"
      unfolding str_in_iff by (rule exI [of _ "[]"]) simp
    with fa have any: "list_ex (\<lambda>f. str_in f (?T @ tail)) fa"
      unfolding list_ex_iff by blast
    show ?thesis
      by (subst flip_label_unfiltered [where label = "JStr ''f''" and q = "''a girl''"])
         (use anchored any in \<open>simp_all add: scenario_dc_simps dict_get_def flip_def\<close>)
  qed
  from a b show ?thesis by blast
qed

text \<open>The scenario at \<^verbatim>\<open>flip_any = ["according to"]\<close>, without and with a final full stop.\<close>

theorem flip_label_according_scenario_witness:
  "''according to'' \<in> set [''according to''] \<and> ''.'' \<in> set query_tails \<and>
   flip_label (scenario_dc ''f'' ''a girl'' [] [''according to''] []) (JInt 1) (JInt 10)
     ''according to him i'm a girl'' = Inr (JStr ''f'') \<and>
   flip_label (scenario_dc ''f'' ''a girl'' [] [''according to''] []) (JInt 1) (JInt 10)
     ''according to him i'm a girl.'' = Inr (JStr ''m'')"
  using flip_label_according_scenario [of "[''according to'']" "[]" "''.''"]
  by (simp add: query_tails_def)

text \<open>C4 as stated fails: the result on the text of the scenario is not \<^verbatim>\<open>'m'\<close>.\<close>

theorem flip_label_according_counterexample:
  "''according to'' \<in> set (flip_any (scenario_dc ''f'' ''a girl'' [] [''according to''] [])) \<and>
   flip_label (scenario_dc ''f'' ''a girl'' [] [''according to''] []) (JInt 1) (JInt 10)
     ''according to him i'm a girl'' \<noteq> Inr (JStr ''m'')"
  by (simp add: flip_label_def scenario_dc_simps dict_get_def bind_def query_tails_def flip_def)

text \<open>
  C5 (as the code has it).  The filter is tested before either map is read.  For ids
  that can be dictionary keys, when \<^verbatim>\<open>user_id\<close> is not a key of the user-to-label map or
  \<^verbatim>\<open>tweet_id\<close> is not a key of the tweet-to-query map, \<^verbatim>\<open>flip_label\<close> raises
  \<^verbatim>\<open>KeyError\<close> if no filter substring occurs in the text, and returns \<^verbatim>\<open>None\<close> if one does.
\<close>

theorem flip_label_missing_key:
  assumes "hash_key uid = Some ku" and "hash_key tid = Some kt"
    and "user_ids self ku = None \<or> query_ids self kt = None"
  shows "flip_label self uid tid text =
           (if \<exists>it\<in>set (filter_dc self). str_in it text then Inr JNull else Inl KeyError)"
  using assms
  by (auto simp: flip_label_def bind_def dict_get_def list_ex_iff split: option.splits)

text \<open>An unknown user, on a text without and on a text with the filter substring.\<close>

theorem flip_label_missing_key_witness:
  "hash_key (JInt 2) = Some (JInt 2) \<and> hash_key (JInt 10) = Some (JInt 10) \<and>
   user_ids (scenario_dc ''f'' ''a girl'' [''rt ''] [] []) (JInt 2) = None \<and>
   flip_label (scenario_dc ''f'' ''a girl'' [''rt ''] [] []) (JInt 2) (JInt 10) ''i'm a girl now'' =
     Inl KeyError \<and>
   flip_label (scenario_dc ''f'' ''a girl'' [''rt ''] [] []) (JInt 2) (JInt 10) ''rt i'm a girl now'' =
     Inr JNull"
  using flip_label_missing_key [of "JInt 2" "JInt 2" "JInt 10" "JInt 10"
      "scenario_dc ''f'' ''a girl'' [''rt ''] [] []" "''i'm a girl now''"]
    flip_label_missing_key [of "JInt 2" "JInt 2" "JInt 10" "JInt 10"
      "scenario_dc ''f'' ''a girl'' [''rt ''] [] []" "''rt i'm a girl now''"]
  by (simp add: scenario_dc_simps)

text \<open>
  C5 as stated fails: neither id is known, the text holds the filter substring
  \<^verbatim>\<open>"rt "\<close>, and the call returns \<^verbatim>\<open>None\<close> instead of raising.
\<close>

theorem flip_label_missing_key_counterexample:
  "user_ids (scenario_dc ''f'' ''a girl'' [''rt ''] [] []) (JInt 2) = None \<and>
   query_ids (scenario_dc ''f'' ''a girl'' [''rt ''] [] []) (JInt 12) = None \<and>
   flip_label (scenario_dc ''f'' ''a girl'' [''rt ''] [] []) (JInt 2) (JInt 12) ''rt i'm a girl now'' =
     Inr JNull"
  by (simp add: flip_label_def scenario_dc_simps)

text \<open>
  C7 (as the code has it).  When no filter substring occurs in the text, the query is
  followed by a boundary character, some \<^verbatim>\<open>flip_any\<close> substring occurs in the text and
  some \<^verbatim>\<open>flip_prefix\<close> substring stands right before the query, \<^verbatim>\<open>flip_label\<close> returns
  the stored label flipped once; a second flip would give a different value.
\<close>

theorem flip_label_both_rules_once:
  assumes "\<not> (\<exists>it\<in>set (filter_dc self). str_in it text)"
    and "dict_get (user_ids self) uid = Inr label"
    and "dict_get (query_ids self) tid = Inr (JStr q)"
    and "\<exists>affix\<in>set query_tails. str_in (q @ affix) text"
    and "\<exists>f\<in>set (flip_any self). str_in f text"
    and "\<exists>p\<in>set (flip_prefix self). str_in (p @ q) text"
  shows "flip_label self uid tid text = Inr (flip label) \<and> flip (flip label) \<noteq> flip label"
  using assms flip_label_unfiltered [of "text" self uid label tid q]
  by (simp add: list_ex_iff flip_flip_neq)

text \<open>Both rules match: \<^verbatim>\<open>'f'\<close> becomes \<^verbatim>\<open>'m'\<close>, not \<^verbatim>\<open>'f'\<close> again.\<close>

theorem flip_label_both_rules_once_witness:
  "flip_label (scenario_dc ''f'' ''a girl'' [''rt ''] [''according to''] ['' guess ''])
     (JInt 1) (JInt 10) ''according to him i guess a girl '' = Inr (JStr ''m'') \<and>
   flip (flip (JStr ''f'')) \<noteq> JStr ''m''"
  using flip_label_both_rules_once [of "scenario_dc ''f'' ''a girl'' [''rt ''] [''according to''] ['' guess '']"
      "''according to him i guess a girl ''" "JInt 1" "JStr ''f''" "JInt 10" "''a girl''"]
  by (simp add: scenario_dc_simps dict_get_def query_tails_def flip_def)

text \<open>
  C7 as stated fails: the query is anchored and both flip rules match, but the text
  also holds the filter substring \<^verbatim>\<open>"rt "\<close>, so the result is \<^verbatim>\<open>None\<close> and not the
  stored label flipped.
\<close>

theorem flip_label_both_rules_counterexample:
  "str_in (''a girl'' @ '' '') ''rt according to him i guess a girl '' \<and>
   str_in ''according to'' ''rt according to him i guess a girl '' \<and>
   str_in ('' guess '' @ ''a girl'') ''rt according to him i guess a girl '' \<and>
   flip_label (scenario_dc ''f'' ''a girl'' [''rt ''] [''according to''] ['' guess ''])
     (JInt 1) (JInt 10) ''rt according to him i guess a girl '' = Inr JNull \<and>
   flip (JStr ''f'') \<noteq> JNull"
  by (simp add: flip_label_def scenario_dc_simps flip_def)

text \<open>
  C10.  When a flip rule fires in \<^verbatim>\<open>flip_label\<close> (the text passed the filter, the query
  is followed by a boundary character, and a \<^verbatim>\<open>flip_any\<close> or a \<^verbatim>\<open>flip_prefix\<close> entry
  matches), the label \<^verbatim>\<open>'f'\<close> becomes \<^verbatim>\<open>'m'\<close> and every other label becomes \<^verbatim>\<open>'f'\<close>; in
  particular a stored label outside \<^verbatim>\<open>{'f', 'm'}\<close> comes out as \<^verbatim>\<open>'f'\<close>, and flipping
  twice gives the label back exactly for the labels \<^verbatim>\<open>'f'\<close> and \<^verbatim>\<open>'m'\<close>.
\<close>

theorem flip_label_flip_map:
  assumes "\<not> (\<exists>it\<in>set (filter_dc self). str_in it text)"
    and "dict_get (user_ids self) uid = Inr label"
    and "dict_get (query_ids self) tid = Inr (JStr q)"
    and "\<exists>affix\<in>set query_tails. str_in (q @ affix) text"
    and "(\<exists>f\<in>set (flip_any self). str_in f text) \<or> (\<exists>p\<in>set (flip_prefix self). str_in (p @ q) text)"
  shows "flip_label self uid tid text = Inr (if label = JStr ''f'' then JStr ''m'' else JStr ''f'') \<and>
         (label \<notin> {JStr ''f'', JStr ''m''} \<longrightarrow> flip_label self uid tid text = Inr (JStr ''f'')) \<and>
         (flip (flip label) = label \<longleftrightarrow> label \<in> {JStr ''f'', JStr ''m''})"
  using assms flip_label_unfiltered [of "text" self uid label tid q]
  by (auto simp: list_ex_iff flip_def)

text \<open>The stored label \<^verbatim>\<open>'M'\<close> under the prefix rule.\<close>

theorem flip_label_flip_map_witness:
  "JStr ''M'' \<notin> {JStr ''f'', JStr ''m''} \<and>
   flip_label (scenario_dc ''M'' ''a girl'' [] [''according to''] ['' guess ''])
     (JInt 1) (JInt 10) ''i guess a girl.'' = Inr (JStr ''f'') \<and>
   flip (flip (JStr ''M'')) \<noteq> JStr ''M''"
  using flip_label_flip_map [of "scenario_dc ''M'' ''a girl'' [] [''according to''] ['' guess '']"
      "''i guess a girl.''" "JInt 1" "JStr ''M''" "JInt 10" "''a girl''"]
  by (simp add: scenario_dc_simps dict_get_def query_tails_def)

section \<open>Stores: what a pass appends and what a reader sees\<close>

lemma content_upd [simp]: "content (fs(p \<mapsto> c)) p = c"
  by (simp add: content_def)

lemma content_upd_other [simp]: "p \<noteq> p' \<Longrightarrow> content (fs(p' \<mapsto> c)) p = content fs p"
  by (simp add: content_def)

lemma DB_init_A:
  "DB_init fs db_name A =
     Inr (\<lparr>mode = A, db = \<lparr>f_path = db_path db_name,
                           f_pos = length (content fs (db_path db_name)), f_closed = False\<rparr>\<rparr>,
          fs(db_path db_name \<mapsto> content fs (db_path db_name)))"
  by (auto simp: DB_init_def py_open_def content_def bind_def split: option.splits)

lemma DB_init_R:
  "DB_init fs db_name R =
     Inr (\<lparr>mode = R, db = \<lparr>f_path = db_path db_name, f_pos = 0, f_closed = False\<rparr>\<rparr>,
          fs(db_path db_name \<mapsto> content fs (db_path db_name)))"
  by (auto simp: DB_init_def py_open_def content_def bind_def split: option.splits)

lemma store_text_Nil [simp]: "store_text J [] = []"
  by (simp add: store_text_def)

lemma store_text_Cons: "store_text J (r # rs) = dumps J r @ ''\<newline>'' @ store_text J rs"
  by (simp add: store_text_def)

lemma insert_all_appends:
  assumes "mode self = A" and "\<not> f_closed (db self)" and "fs (f_path (db self)) = Some c"
  shows "insert_all J self rs fs = Inr (fs(f_path (db self) \<mapsto> c @ store_text J rs))"
  using assms
proof (induction rs arbitrary: fs c)
  case Nil
  then have "fs(f_path (db self) \<mapsto> c) = fs" by (simp add: fun_upd_idem)
  then show ?case by simp
next
  case (Cons r rs)
  let ?fs = "fs(f_path (db self) \<mapsto> c @ dumps J r @ ''\<newline>'')"
  have step: "DB_insert J self r fs = Inr ?fs"
    using Cons.prems by (simp add: DB_insert_def f_write_def content_def)
  have rest: "insert_all J self rs ?fs =
          Inr (?fs(f_path (db self) \<mapsto> (c @ dumps J r @ ''\<newline>'') @ store_text J rs))"
    using Cons.prems by (intro Cons.IH) simp_all
  have "insert_all J self (r # rs) fs = insert_all J self rs ?fs"
    using step by (simp add: bind_def)
  also note rest
  also have "?fs(f_path (db self) \<mapsto> (c @ dumps J r @ ''\<newline>'') @ store_text J rs) =
               fs(f_path (db self) \<mapsto> c @ store_text J (r # rs))"
    by (simp add: store_text_Cons)
  finally show ?case .
qed

lemma py_lines_empty_iff: "py_lines s = [] \<longleftrightarrow> s = []"
  by (cases s) (auto split: list.splits)

lemma py_lines_append:
  "c = [] \<or> last c = CHR 0x0A \<Longrightarrow> py_lines (c @ s) = py_lines c @ py_lines s"
proof (induction c)
  case Nil
  show ?case by simp
next
  case (Cons x c)
  show ?case
  proof (cases "c = []")
    case True
    with Cons.prems show ?thesis by simp
  next
    case False
    with Cons.prems have "last c = CHR 0x0A" by simp
    then have IH: "py_lines (c @ s) = py_lines c @ py_lines s" using Cons.IH by simp
    from False obtain l ls where "py_lines c = l # ls"
      by (cases "py_lines c") (auto simp: py_lines_empty_iff)
    with IH show ?thesis by simp
  qed
qed

lemma py_lines_line:
  "CHR 0x0A \<notin> set s \<Longrightarrow> py_lines (s @ CHR 0x0A # rest) = (s @ [CHR 0x0A]) # py_lines rest"
  by (induction s) auto

lemma py_lines_store_text:
  "\<forall>r\<in>set rs. CHR 0x0A \<notin> set (dumps J r) \<Longrightarrow>
   py_lines (store_text J rs) = map (\<lambda>r. dumps J r @ ''\<newline>'') rs"
proof (induction rs)
  case Nil
  show ?case by simp
next
  case (Cons r rs)
  then have "py_lines (store_text J rs) = map (\<lambda>r. dumps J r @ ''\<newline>'') rs" by simp
  moreover have "CHR 0x0A \<notin> set (dumps J r)" using Cons.prems by simp
  ultimately show ?case by (simp add: store_text_Cons py_lines_line)
qed

lemma collect_append:
  "collect (xs @ ys) = bind (collect xs) (\<lambda>a. bind (collect ys) (\<lambda>b. Inr (a @ b)))"
proof (induction xs rule: collect.induct)
  case 1
  show ?case by (cases "collect ys") (simp_all add: bind_def)
next
  case (2 e rest)
  show ?case by (simp add: bind_def)
next
  case (3 v rest)
  then show ?case by (simp add: bind_def split: sum.splits)
qed

lemma collect_Inr: "collect (map Inr vs) = Inr vs"
  by (induction vs) (simp_all add: bind_def)

lemma collect_eq_Inr: "collect items = Inr vs \<Longrightarrow> items = map Inr vs"
proof (induction items arbitrary: vs rule: collect.induct)
  case 1
  then show ?case by simp
next
  case (2 e rest)
  then show ?case by simp
next
  case (3 v rest)
  then show ?case by (auto simp: bind_def split: sum.splits)
qed

lemma DB_loop_fresh:
  "DB_loop J \<lparr>mode = R, db = \<lparr>f_path = p, f_pos = 0, f_closed = False\<rparr>\<rparr> fs =
     Inr (map (parse_line J) (py_lines (content fs p)))"
  by (simp add: DB_loop_def)

lemma read_all_eq:
  "read_all J fs db_name = collect (map (parse_line J) (py_lines (content fs (db_path db_name))))"
  by (simp add: read_all_def DB_init_R DB_loop_fresh bind_def)

lemma read_all_items:
  "read_all J fs db_name = Inr vs \<Longrightarrow>
   map (parse_line J) (py_lines (content fs (db_path db_name))) = map Inr vs"
  by (simp add: read_all_eq collect_eq_Inr)

lemma parse_store_text:
  "\<forall>r\<in>set rs. loads J (dumps J r @ ''\<newline>'') = Some r \<Longrightarrow>
   map (\<lambda>r. parse_line J (dumps J r @ ''\<newline>'')) rs = map Inr rs"
  by (induction rs) (simp_all add: parse_line_def)

subsection \<open>The example library\<close>

lemma demo_codec:
  "v \<in> fst ` set demo_table \<Longrightarrow>
   loads demo_json (dumps demo_json v @ ''\<newline>'') = Some v \<and> CHR 0x0A \<notin> set (dumps demo_json v)"
  unfolding demo_json_def demo_table_def hit_def message_def labelled_message_def
  by (elim imageE) (simp, elim disjE, simp_all)

lemma py_lines_demo_line:
  "v \<in> fst ` set demo_table \<Longrightarrow> py_lines (demo_line v @ rest) = demo_line v # py_lines rest"
  using demo_codec [of v] by (simp add: demo_line_def py_lines_line)

lemma py_lines_one: "v \<in> fst ` set demo_table \<Longrightarrow> py_lines (demo_line v) = [demo_line v]"
  using py_lines_demo_line [of v "[]"] by simp

lemma parse_demo_line:
  "v \<in> fst ` set demo_table \<Longrightarrow> parse_line demo_json (demo_line v) = Inr v"
  using demo_codec [of v] by (simp add: demo_line_def parse_line_def)

lemma demo_table_members:
  "hit (JInt 1) (JInt 10) ''According to him I'm a girl.'' [] ''a girl'' \<in> fst ` set demo_table"
  "hit (JInt 1) (JInt 11) ''Honestly I'm a girl.'' [] ''a girl'' \<in> fst ` set demo_table"
  "hit (JInt 1) (JInt 10) ''According to him I'm a girl.'' ''f'' ''a girl'' \<in> fst ` set demo_table"
  "hit (JInt 1) (JInt 10) ''According to him I'm a girl.'' ''m'' ''a girl'' \<in> fst ` set demo_table"
  "message (JInt 20) (JInt 1) ''I'm a girl and proud'' \<in> fst ` set demo_table"
  "message (JInt 21) (JInt 1) ''Good Morning'' \<in> fst ` set demo_table"
  "labelled_message (JInt 20) (JInt 1) ''I'm a girl and proud'' (JStr ''f'') \<in> fst ` set demo_table"
  "labelled_message (JInt 21) (JInt 1) ''Good Morning'' (JStr ''f'') \<in> fst ` set demo_table"
  by (simp_all add: demo_table_def)

lemma scenario_dc_stores:
  "id_dc (scenario_dc l q fi fa fp) = ''twitter_gender''"
  "hit_fix (scenario_dc l q fi fa fp) =
     \<lparr>mode = A, db = \<lparr>f_path = db_path ''twitter_gender_fix'', f_pos = 0, f_closed = False\<rparr>\<rparr>"
  "msg_fix (scenario_dc l q fi fa fp) =
     \<lparr>mode = A, db = \<lparr>f_path = db_path ''twitter_gender_msg_fix'', f_pos = 0, f_closed = False\<rparr>\<rparr>"
  "queries (scenario_dc l q fi fa fp) = [(q, l)]"
  "clean_level (scenario_dc l q fi fa fp) = ''messages''"
  by (simp_all add: scenario_dc_def)

subsection \<open>Round trip\<close>

text \<open>
  C8 (as the code has it).  A store opened for append keeps what it holds.  When the
  store, read before, yields the records \<open>old\<close> and its text is empty or ends with a
  newline, and the serialiser writes each inserted record on one line that the parser
  reads back, then inserting \<open>rs\<close>, committing, reopening for read and iterating yields
  \<open>old\<close> followed by \<open>rs\<close>, in insertion order: exactly \<open>rs\<close> when the store was empty
  or did not exist.
\<close>

theorem append_then_read_roundtrip:
  assumes codec: "\<forall>r\<in>set rs. loads J (dumps J r @ ''\<newline>'') = Some r \<and> CHR 0x0A \<notin> set (dumps J r)"
    and prior: "read_all J fs db_name = Inr old"
    and ended: "content fs (db_path db_name) = [] \<or> last (content fs (db_path db_name)) = CHR 0x0A"
  shows "append_then_read J fs db_name rs = Inr (old @ rs)"
proof -
  let ?p = "db_path db_name"
  let ?c = "content fs ?p"
  have lines: "py_lines (?c @ store_text J rs) = py_lines ?c @ map (\<lambda>r. dumps J r @ ''\<newline>'') rs"
    using ended codec by (simp add: py_lines_append py_lines_store_text)
  have old: "collect (map (parse_line J) (py_lines ?c)) = Inr old"
    using prior by (simp add: read_all_eq)
  have new: "map (\<lambda>r. parse_line J (dumps J r @ ''\<newline>'')) rs = map Inr rs"
    by (rule parse_store_text) (use codec in simp)
  have "append_then_read J fs db_name rs =
          collect (map (parse_line J) (py_lines (?c @ store_text J rs)))"
    by (simp add: append_then_read_def DB_init_A bind_def read_all_eq
        insert_all_appends [where c = "?c"])
  also have "\<dots> = Inr (old @ rs)"
    by (simp add: lines collect_append old o_def new collect_Inr bind_def)
  finally show ?thesis .
qed

text \<open>Two hit records inserted into a store that did not exist.\<close>

theorem append_then_read_roundtrip_witness:
  "append_then_read demo_json Map.empty ''twitter_gender''
     [hit (JInt 1) (JInt 10) ''According to him I'm a girl.'' ''f'' ''a girl'',
      hit (JInt 1) (JInt 10) ''According to him I'm a girl.'' ''m'' ''a girl''] =
   Inr [hit (JInt 1) (JInt 10) ''According to him I'm a girl.'' ''f'' ''a girl'',
        hit (JInt 1) (JInt 10) ''According to him I'm a girl.'' ''m'' ''a girl'']"
  using append_then_read_roundtrip [of
      "[hit (JInt 1) (JInt 10) ''According to him I'm a girl.'' ''f'' ''a girl'',
        hit (JInt 1) (JInt 10) ''According to him I'm a girl.'' ''m'' ''a girl'']"
      demo_json Map.empty "''twitter_gender''" "[]"]
  by (simp add: demo_codec demo_table_members read_all_eq content_def)

text \<open>
  C8 as stated fails: the store already holds one record, one record is inserted, and
  the read yields both, not the inserted sequence alone.
\<close>

theorem append_then_read_counterexample:
  "append_then_read demo_json raw_only ''twitter_gender''
     [hit (JInt 1) (JInt 10) ''According to him I'm a girl.'' ''m'' ''a girl''] =
   Inr [hit (JInt 1) (JInt 10) ''According to him I'm a girl.'' ''f'' ''a girl'',
        hit (JInt 1) (JInt 10) ''According to him I'm a girl.'' ''m'' ''a girl''] \<and>
   append_then_read demo_json raw_only ''twitter_gender''
     [hit (JInt 1) (JInt 10) ''According to him I'm a girl.'' ''m'' ''a girl''] \<noteq>
   Inr [hit (JInt 1) (JInt 10) ''According to him I'm a girl.'' ''m'' ''a girl'']"
proof -
  let ?f = "hit (JInt 1) (JInt 10) ''According to him I'm a girl.'' ''f'' ''a girl''"
  let ?m = "hit (JInt 1) (JInt 10) ''According to him I'm a girl.'' ''m'' ''a girl''"
  let ?p = "db_path ''twitter_gender''"
  let ?h = "\<lparr>mode = A, db = \<lparr>f_path = ?p, f_pos = length (demo_line ?f), f_closed = False\<rparr>\<rparr>"
  have stored: "raw_only ?p = Some (demo_line ?f)"
    by (simp add: raw_only_def)
  then have c: "content raw_only ?p = demo_line ?f"
    by (simp add: content_def)
  have same: "raw_only(?p \<mapsto> demo_line ?f) = raw_only"
    using stored by (rule fun_upd_idem)
  have init: "DB_init raw_only ''twitter_gender'' A = Inr (?h, raw_only)"
    by (simp add: DB_init_A c same)
  have "insert_all demo_json ?h [?m] raw_only =
          Inr (raw_only(f_path (db ?h) \<mapsto> demo_line ?f @ store_text demo_json [?m]))"
    using stored by (intro insert_all_appends) simp_all
  then have ins: "insert_all demo_json ?h [?m] raw_only =
          Inr (raw_only(?p \<mapsto> demo_line ?f @ demo_line ?m))"
    by (simp add: store_text_Cons demo_line_def)
  have "append_then_read demo_json raw_only ''twitter_gender'' [?m] =
          read_all demo_json (raw_only(?p \<mapsto> demo_line ?f @ demo_line ?m)) ''twitter_gender''"
    by (simp add: append_then_read_def init ins bind_def del: insert_all.simps)
  also have "\<dots> = collect (map (parse_line demo_json) (py_lines (demo_line ?f @ demo_line ?m)))"
    by (simp add: read_all_eq)
  also have "\<dots> = Inr [?f, ?m]"
    by (simp add: py_lines_demo_line py_lines_one parse_demo_line demo_table_members bind_def)
  finally show ?thesis by (simp add: hit_def)
qed

section \<open>Reconstruction\<close>

lemma reconstruct_ids_nonempty_fix:
  assumes "fs (db_path (db_id @ ''_fix'')) = Some c" and "c \<noteq> []"
  shows "reconstruct_ids J fs db_id = Inr ((Map.empty, Map.empty), fs)"
proof -
  have "fs(db_path (db_id @ ''_fix'') \<mapsto> c) = fs" using assms(1) by (rule fun_upd_idem)
  then show ?thesis
    using assms
    by (simp add: reconstruct_ids_def DB_init_R content_def bind_def f_read_def DB_loop_def)
qed

lemma reconstruct_ids_empty_fix:
  assumes "content fs (db_path (db_id @ ''_fix'')) = []"
  shows "reconstruct_ids J fs db_id =
           bind (parse_store J (fs(db_path (db_id @ ''_fix'') \<mapsto> [])) db_id) (\<lambda>uq.
             Inr (uq, fs(db_path (db_id @ ''_fix'') \<mapsto> [], db_path db_id \<mapsto> content fs (db_path db_id))))"
  using assms
  by (simp add: reconstruct_ids_def parse_store_def DB_init_R bind_def f_read_def db_path_def
      split: sum.splits)

text \<open>
  C1 fails on the code.  The corrected store holds one record (user \<open>1\<close> labelled
  \<^verbatim>\<open>'m'\<close>) and the raw store another: \<^verbatim>\<open>reconstruct_ids\<close> returns two empty maps,
  where replaying the corrected store gives user \<open>1\<close> the label \<^verbatim>\<open>'m'\<close> and tweet
  \<open>10\<close> its query.  The emptiness test has read the handle to its end, and the loop
  iterates the same handle.
\<close>

theorem reconstruct_ids_skips_corrected_store:
  "reconstruct_ids demo_json corrected_and_raw ''twitter_gender'' =
     Inr ((Map.empty, Map.empty), corrected_and_raw) \<and>
   parse_store demo_json corrected_and_raw ''twitter_gender_fix'' =
     Inr ([JInt 1 \<mapsto> JStr ''m''], [JInt 10 \<mapsto> JStr ''a girl''])"
proof
  have "corrected_and_raw (db_path (''twitter_gender'' @ ''_fix'')) =
          Some (demo_line (hit (JInt 1) (JInt 10) ''According to him I'm a girl.'' ''m'' ''a girl''))"
    by (simp add: corrected_and_raw_def db_path_def)
  moreover have "demo_line (hit (JInt 1) (JInt 10) ''According to him I'm a girl.'' ''m'' ''a girl'') \<noteq> []"
    by (simp add: demo_line_def)
  ultimately show "reconstruct_ids demo_json corrected_and_raw ''twitter_gender'' =
      Inr ((Map.empty, Map.empty), corrected_and_raw)"
    by (rule reconstruct_ids_nonempty_fix)
next
  let ?h = "hit (JInt 1) (JInt 10) ''According to him I'm a girl.'' ''m'' ''a girl''"
  have c: "content corrected_and_raw (db_path ''twitter_gender_fix'') = demo_line ?h"
    by (simp add: corrected_and_raw_def content_def db_path_def)
  have "reconstruct_line ?h (Map.empty, Map.empty) =
          Inr ([JInt 1 \<mapsto> JStr ''m''], [JInt 10 \<mapsto> JStr ''a girl''])"
    by (simp add: reconstruct_line_def assign_from_def hit_def bind_def dict_set_def)
  then show "parse_store demo_json corrected_and_raw ''twitter_gender_fix'' =
     Inr ([JInt 1 \<mapsto> JStr ''m''], [JInt 10 \<mapsto> JStr ''a girl''])"
    by (simp add: parse_store_def DB_init_R DB_loop_fresh c py_lines_one parse_demo_line
        demo_table_members bind_def)
qed

section \<open>The correction pass\<close>

lemma new_label_obj: "new_label low self h = Inr l \<Longrightarrow> \<exists>kvs. h = JObj kvs"
  by (cases h) (simp_all add: new_label_def bind_def)

lemma correct_line_eq:
  assumes "mode (hit_fix self) = A" and "\<not> f_closed (db (hit_fix self))"
    and "fs (f_path (db (hit_fix self))) = Some c"
    and "new_label low self h = Inr l"
  shows "correct_line J low self h fs =
           Inr (if truthy l
                then fs(f_path (db (hit_fix self)) \<mapsto> c @ store_text J [with_label l h])
                else fs)"
proof -
  from assms(4) obtain kvs where "h = JObj kvs" using new_label_obj by blast
  with assms show ?thesis
    by (simp add: correct_line_def bind_def DB_insert_def f_write_def content_def store_text_Cons)
qed

lemma correct_loop_appends:
  assumes "mode (hit_fix self) = A" and "\<not> f_closed (db (hit_fix self))"
    and "fs (f_path (db (hit_fix self))) = Some c"
    and "map (new_label low self) hs = map Inr ls"
  shows "correct_loop J low self (map Inr hs) fs =
           Inr (fs(f_path (db (hit_fix self)) \<mapsto>
                  c @ store_text J (map (\<lambda>(h, l). with_label l h)
                                     (filter (\<lambda>(h, l). truthy l) (zip hs ls)))))"
  using assms
proof (induction hs arbitrary: ls fs c)
  case Nil
  then have "fs(f_path (db (hit_fix self)) \<mapsto> c) = fs" by (simp add: fun_upd_idem)
  then show ?case by simp
next
  case (Cons h hs)
  from Cons.prems(4) obtain l ls' where ls: "ls = l # ls'"
    and l: "new_label low self h = Inr l" and rest: "map (new_label low self) hs = map Inr ls'"
    by (cases ls) auto
  let ?p = "f_path (db (hit_fix self))"
  show ?case
  proof (cases "truthy l")
    case True
    let ?fs = "fs(?p \<mapsto> c @ store_text J [with_label l h])"
    have step: "correct_line J low self h fs = Inr ?fs"
      using Cons.prems(1-3) l True by (simp add: correct_line_eq)
    have rest': "correct_loop J low self (map Inr hs) ?fs =
            Inr (?fs(?p \<mapsto> (c @ store_text J [with_label l h]) @
                   store_text J (map (\<lambda>(h, l). with_label l h)
                                   (filter (\<lambda>(h, l). truthy l) (zip hs ls')))))"
      using Cons.prems(1,2) rest by (intro Cons.IH) simp_all
    have "correct_loop J low self (map Inr (h # hs)) fs = correct_loop J low self (map Inr hs) ?fs"
      using step by (simp add: bind_def)
    also note rest'
    also have "?fs(?p \<mapsto> (c @ store_text J [with_label l h]) @
                   store_text J (map (\<lambda>(h, l). with_label l h)
                                   (filter (\<lambda>(h, l). truthy l) (zip hs ls')))) =
               fs(?p \<mapsto> c @ store_text J (map (\<lambda>(h, l). with_label l h)
                                             (filter (\<lambda>(h, l). truthy l) (zip (h # hs) ls))))"
      using True ls by (simp add: store_text_Cons)
    finally show ?thesis .
  next
    case False
    have step: "correct_line J low self h fs = Inr fs"
      using Cons.prems(1-3) l False by (simp add: correct_line_eq)
    have rest': "correct_loop J low self (map Inr hs) fs =
            Inr (fs(?p \<mapsto> c @ store_text J (map (\<lambda>(h, l). with_label l h)
                                               (filter (\<lambda>(h, l). truthy l) (zip hs ls')))))"
      using Cons.prems(1-3) rest by (intro Cons.IH) simp_all
    have "correct_loop J low self (map Inr (h # hs)) fs = correct_loop J low self (map Inr hs) fs"
      using step by (simp add: bind_def)
    also note rest'
    also have "fs(?p \<mapsto> c @ store_text J (map (\<lambda>(h, l). with_label l h)
                                               (filter (\<lambda>(h, l). truthy l) (zip hs ls')))) =
               fs(?p \<mapsto> c @ store_text J (map (\<lambda>(h, l). with_label l h)
                                             (filter (\<lambda>(h, l). truthy l) (zip (h # hs) ls))))"
      using False ls by simp
    finally show ?thesis .
  qed
qed

lemma correct_query_tweets_eq:
  assumes "mode (hit_fix self) = A" and "\<not> f_closed (db (hit_fix self))"
    and "fs (f_path (db (hit_fix self))) = Some c"
    and "f_path (db (hit_fix self)) \<noteq> db_path (id_dc self)"
    and "read_all J fs (id_dc self) = Inr hs"
    and "map (new_label low self) hs = map Inr ls"
  shows "correct_query_tweets J low self fs =
           Inr (self\<lparr>hit_fix := DB_commit (hit_fix self)\<rparr>,
                fs(db_path (id_dc self) \<mapsto> content fs (db_path (id_dc self)),
                   f_path (db (hit_fix self)) \<mapsto>
                     c @ store_text J (map (\<lambda>(h, l). with_label l h)
                                        (filter (\<lambda>(h, l). truthy l) (zip hs ls)))))"
proof -
  let ?fs1 = "fs(db_path (id_dc self) \<mapsto> content fs (db_path (id_dc self)))"
  have "?fs1 (f_path (db (hit_fix self))) = Some c"
    using assms(3,4) by simp
  then have "correct_loop J low self (map Inr hs) ?fs1 =
               Inr (?fs1(f_path (db (hit_fix self)) \<mapsto>
                      c @ store_text J (map (\<lambda>(h, l). with_label l h)
                                         (filter (\<lambda>(h, l). truthy l) (zip hs ls)))))"
    using assms(1,2,6) by (intro correct_loop_appends)
  then show ?thesis
    using read_all_items [OF assms(5)]
    by (simp add: correct_query_tweets_def DB_init_R DB_loop_fresh bind_def)
qed

lemma new_label_empty_label:
  assumes "getitem h ''user_id'' = Inr uid" and "getitem h ''tweet_id'' = Inr tid"
    and "getitem h ''tweet_text'' = Inr (JStr t)"
    and "dict_get (user_ids self) uid = Inr (JStr [])"
    and "dict_get (query_ids self) tid = Inr (JStr q)"
    and "\<not> (\<exists>it\<in>set (filter_dc self). str_in it (low t))"
  shows "new_label low self h =
           Inr (if (\<exists>affix\<in>set query_tails. str_in (q @ affix) (low t)) \<and>
                   ((\<exists>f\<in>set (flip_any self). str_in f (low t)) \<or>
                    (\<exists>p\<in>set (flip_prefix self). str_in (p @ q) (low t)))
                then JStr ''f'' else JStr [])"
  using assms flip_label_unfiltered [of "low t" self uid "JStr []" tid q]
  by (simp add: new_label_def bind_def list_ex_iff flip_def)

text \<open>
  C9 (as the code has it).  \<^verbatim>\<open>correct_query_tweets\<close> appends to the corrected store,
  in order, exactly the hit records for which \<^verbatim>\<open>flip_label\<close> returns a truthy value,
  each with that value as its label.  A hit whose stored label is the empty string and
  whose lower-cased text passes the filter gets the label \<^verbatim>\<open>'f'\<close> when a flip rule
  fires on that text, and is then appended; it keeps the empty label, and is dropped,
  only when no flip rule fires.  The text is lower-cased by \<^verbatim>\<open>str.lower\<close>, the
  parameter \<open>low\<close>.
\<close>

theorem correct_query_tweets_truthy:
  assumes "mode (hit_fix self) = A" and "\<not> f_closed (db (hit_fix self))"
    and "fs (f_path (db (hit_fix self))) = Some c"
    and "f_path (db (hit_fix self)) \<noteq> db_path (id_dc self)"
    and "read_all J fs (id_dc self) = Inr hs"
    and "map (new_label low self) hs = map Inr ls"
  shows "correct_query_tweets J low self fs =
           Inr (self\<lparr>hit_fix := DB_commit (hit_fix self)\<rparr>,
                fs(db_path (id_dc self) \<mapsto> content fs (db_path (id_dc self)),
                   f_path (db (hit_fix self)) \<mapsto>
                     c @ store_text J (map (\<lambda>(h, l). with_label l h)
                                        (filter (\<lambda>(h, l). truthy l) (zip hs ls))))) \<and>
         (getitem h ''user_id'' = Inr uid \<and> getitem h ''tweet_id'' = Inr tid \<and>
          getitem h ''tweet_text'' = Inr (JStr t) \<and>
          dict_get (user_ids self) uid = Inr (JStr []) \<and>
          dict_get (query_ids self) tid = Inr (JStr q) \<and>
          \<not> (\<exists>it\<in>set (filter_dc self). str_in it (low t)) \<longrightarrow>
          new_label low self h =
            Inr (if (\<exists>affix\<in>set query_tails. str_in (q @ affix) (low t)) \<and>
                    ((\<exists>f\<in>set (flip_any self). str_in f (low t)) \<or>
                     (\<exists>p\<in>set (flip_prefix self). str_in (p @ q) (low t)))
                 then JStr ''f'' else JStr []))"
  using correct_query_tweets_eq [OF assms] new_label_empty_label [of h uid tid t self q low]
  by blast

lemma lower_according: "ascii_lower ''According to him I'm a girl.'' = ''according to him i'm a girl.''"
  by (simp add: ascii_lower_def lower_char_def)

lemma lower_honestly: "ascii_lower ''Honestly I'm a girl.'' = ''honestly i'm a girl.''"
  by (simp add: ascii_lower_def lower_char_def)

lemma new_label_according:
  "new_label ascii_lower (scenario_dc [] ''a girl'' [] [''according to''] [])
     (hit (JInt 1) (JInt 10) ''According to him I'm a girl.'' [] ''a girl'') = Inr (JStr ''f'')"
  by (simp add: new_label_def hit_def bind_def lower_according flip_label_def scenario_dc_simps
      dict_get_def query_tails_def flip_def)

lemma new_label_honestly:
  "new_label ascii_lower (scenario_dc [] ''a girl'' [] [''according to''] [])
     (hit (JInt 1) (JInt 11) ''Honestly I'm a girl.'' [] ''a girl'') = Inr (JStr [])"
  by (simp add: new_label_def hit_def bind_def lower_honestly flip_label_def scenario_dc_simps
      dict_get_def query_tails_def flip_def)

lemma read_empty_label_hits:
  "read_all demo_json empty_label_hits ''twitter_gender'' =
     Inr [hit (JInt 1) (JInt 10) ''According to him I'm a girl.'' [] ''a girl'',
          hit (JInt 1) (JInt 11) ''Honestly I'm a girl.'' [] ''a girl'']"
proof -
  have "content empty_label_hits (db_path ''twitter_gender'') =
          demo_line (hit (JInt 1) (JInt 10) ''According to him I'm a girl.'' [] ''a girl'') @
          demo_line (hit (JInt 1) (JInt 11) ''Honestly I'm a girl.'' [] ''a girl'')"
    by (simp add: empty_label_hits_def content_def db_path_def)
  then show ?thesis
    by (simp add: read_all_eq py_lines_demo_line py_lines_one parse_demo_line demo_table_members
        bind_def)
qed

text \<open>
  Two hits of a user with the empty label: the first triggers \<^verbatim>\<open>flip_any\<close> and is
  appended with the label \<^verbatim>\<open>'f'\<close>, the second triggers nothing and is dropped.
\<close>

theorem correct_query_tweets_truthy_witness:
  "correct_query_tweets demo_json ascii_lower (scenario_dc [] ''a girl'' [] [''according to''] []) empty_label_hits =
     Inr ((scenario_dc [] ''a girl'' [] [''according to''] [])
            \<lparr>hit_fix := DB_commit (hit_fix (scenario_dc [] ''a girl'' [] [''according to''] []))\<rparr>,
          empty_label_hits(db_path ''twitter_gender_fix'' \<mapsto>
            demo_line (hit (JInt 1) (JInt 10) ''According to him I'm a girl.'' ''f'' ''a girl''))) \<and>
   new_label ascii_lower (scenario_dc [] ''a girl'' [] [''according to''] [])
     (hit (JInt 1) (JInt 11) ''Honestly I'm a girl.'' [] ''a girl'') = Inr (JStr [])"
proof -
  let ?dc = "scenario_dc [] ''a girl'' [] [''according to''] []"
  let ?a = "hit (JInt 1) (JInt 10) ''According to him I'm a girl.'' [] ''a girl''"
  let ?b = "hit (JInt 1) (JInt 11) ''Honestly I'm a girl.'' [] ''a girl''"
  have 1: "mode (hit_fix ?dc) = A" and 2: "\<not> f_closed (db (hit_fix ?dc))"
    and 3: "empty_label_hits (f_path (db (hit_fix ?dc))) = Some []"
    and 4: "f_path (db (hit_fix ?dc)) \<noteq> db_path (id_dc ?dc)"
    by (simp_all add: scenario_dc_stores empty_label_hits_def db_path_def)
  have 5: "read_all demo_json empty_label_hits (id_dc ?dc) = Inr [?a, ?b]"
    by (simp add: scenario_dc_stores read_empty_label_hits)
  have 6: "map (new_label ascii_lower ?dc) [?a, ?b] = map Inr [JStr ''f'', JStr []]"
    by (simp add: new_label_according new_label_honestly)
  have same: "empty_label_hits(db_path ''twitter_gender'' \<mapsto> content empty_label_hits (db_path ''twitter_gender'')) =
      empty_label_hits"
    by (rule fun_upd_idem) (simp add: empty_label_hits_def content_def db_path_def)
  have relabel: "with_label (JStr ''f'') ?a = hit (JInt 1) (JInt 10) ''According to him I'm a girl.'' ''f'' ''a girl''"
    by (simp add: hit_def)
  from correct_query_tweets_truthy [where h = "?b" and uid = "JInt 1" and tid = "JInt 11"
      and t = "''Honestly I'm a girl.''" and q = "''a girl''", OF 1 2 3 4 5 6]
  show ?thesis
    by (simp add: scenario_dc_stores same relabel store_text_Cons demo_line_def
        new_label_honestly)
qed

text \<open>
  C9 as stated fails: the stored label is the empty string, no filter is configured, and
  the hit is appended to the corrected store, with the label \<^verbatim>\<open>'f'\<close>.
\<close>

theorem correct_query_tweets_counterexample:
  "dict_get (user_ids (scenario_dc [] ''a girl'' [] [''according to''] [])) (JInt 1) = Inr (JStr []) \<and>
   correct_query_tweets demo_json ascii_lower (scenario_dc [] ''a girl'' [] [''according to''] []) empty_label_hit =
     Inr ((scenario_dc [] ''a girl'' [] [''according to''] [])
            \<lparr>hit_fix := DB_commit (hit_fix (scenario_dc [] ''a girl'' [] [''according to''] []))\<rparr>,
          empty_label_hit(db_path ''twitter_gender_fix'' \<mapsto>
            demo_line (hit (JInt 1) (JInt 10) ''According to him I'm a girl.'' ''f'' ''a girl'')))"
proof -
  let ?dc = "scenario_dc [] ''a girl'' [] [''according to''] []"
  let ?a = "hit (JInt 1) (JInt 10) ''According to him I'm a girl.'' [] ''a girl''"
  have 1: "mode (hit_fix ?dc) = A" and 2: "\<not> f_closed (db (hit_fix ?dc))"
    and 3: "empty_label_hit (f_path (db (hit_fix ?dc))) = Some []"
    and 4: "f_path (db (hit_fix ?dc)) \<noteq> db_path (id_dc ?dc)"
    by (simp_all add: scenario_dc_stores empty_label_hit_def db_path_def)
  have c: "content empty_label_hit (db_path ''twitter_gender'') = demo_line ?a"
    by (simp add: empty_label_hit_def content_def db_path_def)
  have 5: "read_all demo_json empty_label_hit (id_dc ?dc) = Inr [?a]"
    by (simp add: scenario_dc_stores read_all_eq c py_lines_one parse_demo_line
        demo_table_members bind_def)
  have 6: "map (new_label ascii_lower ?dc) [?a] = map Inr [JStr ''f'']"
    by (simp add: new_label_according)
  have same: "empty_label_hit(db_path ''twitter_gender'' \<mapsto> content empty_label_hit (db_path ''twitter_gender'')) =
      empty_label_hit"
    by (rule fun_upd_idem) (simp add: empty_label_hit_def content_def db_path_def)
  have relabel: "with_label (JStr ''f'') ?a = hit (JInt 1) (JInt 10) ''According to him I'm a girl.'' ''f'' ''a girl''"
    by (simp add: hit_def)
  from correct_query_tweets_eq [OF 1 2 3 4 5 6]
  show ?thesis
    by (simp add: scenario_dc_stores scenario_dc_simps dict_get_def same relabel store_text_Cons
        demo_line_def)
qed

section \<open>The cleaning pass\<close>















section \<open>The split\<close>

lemma py_split_two:
  "py_split (CHR 0x0A) ''__label__1 hello\<newline>__label__0 world'' =
     [''__label__1 hello'', ''__label__0 world'']"
  by simp

lemma py_round_zero: "py_round (2 * (1 / 5)) = 0"
  by code_simp

lemma slice_from_zero: "slice_from xs 0 = xs"
  by (simp add: slice_from_def)

lemma slice_to_all: "slice_to xs (int (length xs)) = xs"
  by (simp add: slice_to_def)

lemma slice_from_last:
  "0 < n \<Longrightarrow> n \<le> int (length xs) \<Longrightarrow> slice_from xs (- n) = drop (length xs - nat n) xs"
  by (simp add: slice_from_def)

lemma slice_to_first:
  "0 \<le> n \<Longrightarrow> n \<le> int (length xs) \<Longrightarrow> slice_to xs (int (length xs) - n) = take (length xs - nat n) xs"
  by (simp add: slice_to_def nat_diff_distrib)

lemma batches_to_sets_split:
  assumes "fs (''./data/'' @ db_id @ ''.dataf'') = Some text"
    and "n = py_round (of_nat (length (py_split (CHR 0x0A) text)) * test_size)"
    and "0 < n" and "n \<le> int (length (py_split (CHR 0x0A) text))"
  shows "batches_to_sets fs db_id test_size =
           Inr (fs(''./data/'' @ db_id @ ''.train'' \<mapsto>
                     write_lines (take (length (py_split (CHR 0x0A) text) - nat n) (py_split (CHR 0x0A) text)),
                   ''./data/'' @ db_id @ ''.test'' \<mapsto>
                     write_lines (drop (length (py_split (CHR 0x0A) text) - nat n) (py_split (CHR 0x0A) text))))"
  using assms
  by (simp add: batches_to_sets_def Let_def slice_from_last slice_to_first)

lemma batches_to_sets_none:
  assumes "fs (''./data/'' @ db_id @ ''.dataf'') = Some text"
    and "py_round (of_nat (length (py_split (CHR 0x0A) text)) * test_size) = 0"
  shows "batches_to_sets fs db_id test_size =
           Inr (fs(''./data/'' @ db_id @ ''.train'' \<mapsto> write_lines (py_split (CHR 0x0A) text),
                   ''./data/'' @ db_id @ ''.test'' \<mapsto> write_lines (py_split (CHR 0x0A) text)))"
  using assms
  by (simp add: batches_to_sets_def Let_def slice_from_zero slice_to_all)

text \<open>
  C2 fails on the code.  A batch file of two lines with \<^verbatim>\<open>test_size = 0.2\<close>:
  \<^verbatim>\<open>round(2 * 0.2)\<close> is \<open>0\<close>, the slice \<^verbatim>\<open>batches[-0:]\<close> is the whole list, and the
  test file receives both lines (as does the train file) instead of none.
\<close>

theorem batches_to_sets_zero_test_takes_all:
  "py_round (of_nat (length (py_split (CHR 0x0A) ''__label__1 hello\<newline>__label__0 world'')) * (1 / 5)) = 0 \<and>
   batches_to_sets two_batches ''query_gender'' (1 / 5) =
     Inr (two_batches
            (''./data/query_gender.train'' \<mapsto> ''__label__1 hello\<newline>__label__0 world\<newline>'',
             ''./data/query_gender.test'' \<mapsto> ''__label__1 hello\<newline>__label__0 world\<newline>''))"
proof -
  let ?text = "''__label__1 hello\<newline>__label__0 world''"
  have r: "py_round (of_nat (length (py_split (CHR 0x0A) ?text)) * (1 / 5)) = 0"
    using py_round_zero by (simp add: py_split_two)
  have f: "two_batches (''./data/'' @ ''query_gender'' @ ''.dataf'') = Some ?text"
    by (simp add: two_batches_def)
  have "batches_to_sets two_batches ''query_gender'' (1 / 5) =
          Inr (two_batches
                 (''./data/'' @ ''query_gender'' @ ''.train'' \<mapsto> write_lines (py_split (CHR 0x0A) ?text),
                  ''./data/'' @ ''query_gender'' @ ''.test'' \<mapsto> write_lines (py_split (CHR 0x0A) ?text)))"
    using f r by (rule batches_to_sets_none)
  with r show ?thesis
    by (simp add: py_split_two write_lines_def)
qed

end
